theory Spec2Isabelle
  imports Complex_Main "HOL-Library.Sublist"
begin

section \<open>Python values\<close>

text \<open>
  The client of \<^verbatim>\<open>deebot_client/api_client.py\<close> handles decoded JSON: the replies of
  the transport, the entries of a device list, the arguments of a command. A value is
  \<^verbatim>\<open>None\<close>, a bool, an unbounded int, a float, a str, a list or a dict with str keys.
  A float is carried as the number it denotes (an exact rational, or an infinity, which
  a literal such as \<^verbatim>\<open>1e400\<close> decodes to); no arithmetic is done on floats here, they
  are only compared with ints. A dict is an association list in insertion order, read
  through \<^const>\<open>map_of\<close>.
\<close>

datatype pyfloat = Finite rat | PosInf | NegInf

datatype pyval =
    PyNone
  | PyBool bool
  | PyInt int
  | PyFloat pyfloat
  | PyStr string
  | PyList "pyval list"
  | PyDict "(string \<times> pyval) list"

type_synonym dict = "(string \<times> pyval) list"

text \<open>The exceptions the operations can end in. \<open>Collaborator\<close> is whatever the
  authenticator or the transport raised, passed on untouched; \<open>ValueError\<close> is what
  the URL parser of the standard library raises.\<close>

datatype error =
    ApiError string
  | KeyError string
  | TypeError
  | AttributeError
  | ValueError
  | Collaborator string

text \<open>Python's \<^verbatim>\<open>==\<close>: bools, ints and floats compare as numbers (\<^verbatim>\<open>False == 0\<close>,
  \<^verbatim>\<open>0.0 == 0\<close>), lists compare element by element, dicts as mappings.\<close>

fun num :: "pyval \<Rightarrow> pyfloat option" where
  "num (PyBool b) = Some (Finite (if b then 1 else 0))"
| "num (PyInt i) = Some (Finite (of_int i))"
| "num (PyFloat f) = Some f"
| "num _ = None"

fun py_eq :: "pyval \<Rightarrow> pyval \<Rightarrow> bool" where
  "py_eq PyNone PyNone = True"
| "py_eq (PyStr s) (PyStr t) = (s = t)"
| "py_eq (PyList xs) (PyList ys) = list_all2 py_eq xs ys"
| "py_eq (PyDict a) (PyDict b) =
     (length a = length b \<and>
      list_all (\<lambda>(k, v). case map_of b k of None \<Rightarrow> False | Some v' \<Rightarrow> py_eq v v') a)"
| "py_eq x y = (case (num x, num y) of (Some p, Some q) \<Rightarrow> p = q | _ \<Rightarrow> False)"

text \<open>\<^verbatim>\<open>x in [a, b, ...]\<close>.\<close>

definition py_in :: "pyval \<Rightarrow> pyval list \<Rightarrow> bool" where
  "py_in x ys = list_ex (py_eq x) ys"

text \<open>\<^verbatim>\<open>d.get(k, default)\<close> on a dict, and \<^verbatim>\<open>x.get(k)\<close> on any value: only a dict
  has the method.\<close>

definition dict_get :: "dict \<Rightarrow> string \<Rightarrow> pyval \<Rightarrow> pyval" where
  "dict_get d k dflt = (case map_of d k of None \<Rightarrow> dflt | Some v \<Rightarrow> v)"

fun py_get :: "pyval \<Rightarrow> string \<Rightarrow> error + pyval" where
  "py_get (PyDict d) k = Inr (dict_get d k PyNone)"
| "py_get _ k = Inl AttributeError"

text \<open>\<^verbatim>\<open>x[k]\<close> with a str key: a dict without the key raises KeyError, a list or a str
  takes no str index, the other values take no index at all.\<close>

fun getitem :: "pyval \<Rightarrow> string \<Rightarrow> error + pyval" where
  "getitem (PyDict d) k = (case map_of d k of None \<Rightarrow> Inl (KeyError k) | Some v \<Rightarrow> Inr v)"
| "getitem _ k = Inl TypeError"

text \<open>\<^verbatim>\<open>for x in v\<close>: the elements of a list, the characters of a str, the keys of a
  dict; nothing else is iterable.\<close>

fun py_iter :: "pyval \<Rightarrow> error + pyval list" where
  "py_iter (PyList xs) = Inr xs"
| "py_iter (PyStr s) = Inr (map (\<lambda>c. PyStr [c]) s)"
| "py_iter (PyDict d) = Inr (map (\<lambda>kv. PyStr (fst kv)) d)"
| "py_iter _ = Inl TypeError"

text \<open>\<^verbatim>\<open>d[k] = v\<close> and \<^verbatim>\<open>d.update({...})\<close> on a dict with str keys: an existing key
  keeps its place, a new one goes last.\<close>

fun dict_set :: "dict \<Rightarrow> string \<Rightarrow> pyval \<Rightarrow> dict" where
  "dict_set [] k v = [(k, v)]"
| "dict_set ((k', v') # d) k v =
     (if k' = k then (k', v) # d else (k', v') # dict_set d k v)"

definition dict_update :: "dict \<Rightarrow> dict \<Rightarrow> dict" where
  "dict_update d kvs = foldl (\<lambda>acc kv. dict_set acc (fst kv) (snd kv)) d kvs"

text \<open>The product map is built with whatever keys the reply holds, so its keys are
  values. A list or a dict is not hashable; keys that are \<^verbatim>\<open>==\<close> are one key, and the
  first one stored stays.\<close>

type_synonym product_map = "(pyval \<times> pyval) list"

fun hashable :: "pyval \<Rightarrow> bool" where
  "hashable (PyList xs) = False"
| "hashable (PyDict d) = False"
| "hashable _ = True"

fun store :: "product_map \<Rightarrow> pyval \<Rightarrow> pyval \<Rightarrow> product_map" where
  "store [] k v = [(k, v)]"
| "store ((k', v') # m) k v =
     (if py_eq k' k then (k', v) # m else (k', v') # store m k v)"

definition setitem :: "product_map \<Rightarrow> pyval \<Rightarrow> pyval \<Rightarrow> error + product_map" where
  "setitem m k v = (if hashable k then Inr (store m k v) else Inl TypeError)"

text \<open>\<^verbatim>\<open>str(n)\<close> of an int, and the text an f-string puts for a value. For a str that is
  the str itself. What Python prints for a float, a list or a dict is the work of its
  runtime and not of this program: it is the parameter \<open>repr\<close>.\<close>

fun string_of_nat :: "nat \<Rightarrow> string" where
  "string_of_nat n =
     (if n < 10 then [''0123456789'' ! n]
      else string_of_nat (n div 10) @ [''0123456789'' ! (n mod 10)])"

declare string_of_nat.simps [simp del]

definition string_of_int :: "int \<Rightarrow> string" where
  "string_of_int i = (if i < 0 then ''-'' @ string_of_nat (nat (- i)) else string_of_nat (nat i))"

fun py_str :: "(pyval \<Rightarrow> string) \<Rightarrow> pyval \<Rightarrow> string" where
  "py_str repr (PyStr s) = s"
| "py_str repr (PyInt i) = string_of_int i"
| "py_str repr (PyBool b) = (if b then ''True'' else ''False'')"
| "py_str repr PyNone = ''None''"
| "py_str repr v = repr v"

section \<open>The data model\<close>

text \<open>
  Modelled from the spec: the classes \<^verbatim>\<open>Credentials\<close>, \<^verbatim>\<open>Configuration\<close> and
  \<^verbatim>\<open>DeviceInfo\<close> of the models module and \<^verbatim>\<open>Command\<close> of the command module are
  imported by the source and not part of it. Credentials expose a user identifier; a
  configuration holds a continent and a country code; a command has a name and an
  ordered sequence of arguments; a \<^verbatim>\<open>DeviceInfo\<close> is constructed from the raw mapping
  of the device list and is read through \<^verbatim>\<open>did\<close>, \<^verbatim>\<open>resource\<close> and \<^verbatim>\<open>get_class\<close>,
  the mapping's \<^verbatim>\<open>did\<close>, \<^verbatim>\<open>resource\<close> and \<^verbatim>\<open>class\<close> entries. Constructing one reads
  nothing, so it cannot fail; reading an entry the mapping lacks raises as reading the
  mapping does.
\<close>

record Credentials =
  user_id :: string

record Configuration =
  continent :: string
  country :: string

record Command =
  name :: string
  args :: "pyval list"

datatype DeviceInfo = DeviceInfo pyval

fun did :: "DeviceInfo \<Rightarrow> error + pyval" where
  "did (DeviceInfo d) = getitem d ''did''"

fun resource :: "DeviceInfo \<Rightarrow> error + pyval" where
  "resource (DeviceInfo d) = getitem d ''resource''"

fun get_class :: "DeviceInfo \<Rightarrow> error + pyval" where
  "get_class (DeviceInfo d) = getitem d ''class''"

text \<open>
  Modelled from the spec: the four path constants of the const module and the name of
  the \<^verbatim>\<open>GetCleanLogs\<close> command (the reserved log-retrieval name) are imported by the
  source and not part of it; the spec gives them no value, so they are parameters,
  together with the runtime's \<open>repr\<close>.
\<close>

record deps =
  PATH_API_APPSVR_APP :: string
  PATH_API_IOT_DEVMANAGER :: string
  PATH_API_LG_LOG :: string
  PATH_API_PIM_PRODUCT_IOT_MAP :: string
  GetCleanLogs_name :: string
  repr :: "pyval \<Rightarrow> string"

text \<open>What the transport's \<^verbatim>\<open>post\<close> is called with. \<open>query_params\<close> and \<open>headers\<close>
  are \<open>None\<close> where the call does not pass them.\<close>

record request =
  path :: string
  json :: dict
  query_params :: "dict option"
  headers :: "(string \<times> string) list option"
  credentials :: Credentials

definition REQUEST_HEADERS :: "(string \<times> string) list" where
  "REQUEST_HEADERS =
     [(''User-Agent'', ''Dalvik/2.1.0 (Linux; U; Android 5.1.1; A5010 Build/LMY48Z)'')]"

section \<open>Collaborators and effects\<close>

text \<open>
  Modelled from the spec: the authenticator and the transport are collaborators that
  the source imports and calls, and the clock is the runtime's. An operation calls
  each at most once, so a collaborator is given by what it answers: credentials or an
  exception, a decoded reply to each request or an exception, the current timestamp.
\<close>

record world =
  authenticate :: "string + Credentials"
  post :: "request \<Rightarrow> string + dict"
  timestamp :: pyfloat

text \<open>
  An operation yields its result and the trace of what it did, in order: the calls on
  the collaborators and the log records, and two marks that are no effect of their
  own: \<open>Build\<close> where the source has evaluated the dict display of the request body,
  \<open>Validate\<close> where it tests the reply's code.
\<close>

datatype event =
    Authenticate
  | Timestamp
  | Build dict
  | Post request
  | Validate
  | Log_debug string pyval
  | Log_error string

type_synonym 'a io = "(error + 'a) \<times> event list"

definition io_return :: "'a \<Rightarrow> 'a io" where
  "io_return x = (Inr x, [])"

definition io_raise :: "error \<Rightarrow> 'a io" where
  "io_raise e = (Inl e, [])"

definition io_of :: "error + 'a \<Rightarrow> 'a io" where
  "io_of r = (r, [])"

definition io_emit :: "event \<Rightarrow> unit io" where
  "io_emit ev = (Inr (), [ev])"

definition io_bind :: "'a io \<Rightarrow> ('a \<Rightarrow> 'b io) \<Rightarrow> 'b io" where
  "io_bind m f =
     (case m of
        (Inl e, t) \<Rightarrow> (Inl e, t)
      | (Inr x, t) \<Rightarrow> (case f x of (r, t') \<Rightarrow> (r, t @ t')))"

definition call_authenticate :: "world \<Rightarrow> Credentials io" where
  "call_authenticate w =
     (case authenticate w of Inl x \<Rightarrow> Inl (Collaborator x) | Inr c \<Rightarrow> Inr c,
      [Authenticate])"

definition call_post :: "world \<Rightarrow> request \<Rightarrow> dict io" where
  "call_post w req =
     (case post w req of Inl x \<Rightarrow> Inl (Collaborator x) | Inr resp \<Rightarrow> Inr resp,
      [Post req])"

definition call_now :: "world \<Rightarrow> pyfloat io" where
  "call_now w = (Inr (timestamp w), [Timestamp])"

section \<open>The standard library's URL functions\<close>

text \<open>
  \<^verbatim>\<open>_get_portal_url\<close> calls \<^verbatim>\<open>urllib.parse.urljoin\<close>. The functions below follow
  \<^verbatim>\<open>urllib/parse.py\<close> of CPython 3.11 on str arguments, statement by statement:
  \<^verbatim>\<open>urlsplit\<close>, \<^verbatim>\<open>urlparse\<close>, \<^verbatim>\<open>urlunsplit\<close>, \<^verbatim>\<open>urlunparse\<close>, \<^verbatim>\<open>urljoin\<close> and what
  they use. A parse raises \<^verbatim>\<open>ValueError\<close> or yields the tuple of its components.
\<close>

definition WHATWG_C0_CONTROL_OR_SPACE :: "char \<Rightarrow> bool" where
  "WHATWG_C0_CONTROL_OR_SPACE c = ((of_char c :: nat) \<le> 32)"

definition UNSAFE_URL_BYTES_TO_REMOVE :: "char list" where
  "UNSAFE_URL_BYTES_TO_REMOVE = [CHR 0x09, CHR 0x0D, CHR 0x0A]"

definition ascii_letters :: string where
  "ascii_letters = ''abcdefghijklmnopqrstuvwxyzABCDEFGHIJKLMNOPQRSTUVWXYZ''"

definition scheme_chars :: string where
  "scheme_chars = ascii_letters @ ''0123456789+-.''"

definition str_lower :: "string \<Rightarrow> string" where
  "str_lower s =
     map (\<lambda>c. case map_of (zip ''ABCDEFGHIJKLMNOPQRSTUVWXYZ'' ''abcdefghijklmnopqrstuvwxyz'') c of
                 None \<Rightarrow> c | Some l \<Rightarrow> l) s"

definition uses_relative :: "string list" where
  "uses_relative = ['''', ''ftp'', ''http'', ''gopher'', ''nntp'', ''imap'', ''wais'', ''file'',
     ''https'', ''shttp'', ''mms'', ''prospero'', ''rtsp'', ''rtsps'', ''rtspu'', ''sftp'',
     ''svn'', ''svn+ssh'', ''ws'', ''wss'']"

definition uses_netloc :: "string list" where
  "uses_netloc = ['''', ''ftp'', ''http'', ''gopher'', ''nntp'', ''telnet'', ''imap'', ''wais'',
     ''file'', ''mms'', ''https'', ''shttp'', ''snews'', ''prospero'', ''rtsp'', ''rtsps'',
     ''rtspu'', ''rsync'', ''svn'', ''svn+ssh'', ''sftp'', ''nfs'', ''git'', ''git+ssh'',
     ''ws'', ''wss'']"

definition uses_params :: "string list" where
  "uses_params = ['''', ''ftp'', ''hdl'', ''prospero'', ''http'', ''imap'', ''https'', ''shttp'',
     ''rtsp'', ''rtsps'', ''rtspu'', ''sip'', ''sips'', ''mms'', ''sftp'', ''tel'']"

text \<open>\<^verbatim>\<open>s.str_split(sep, 1)\<close> for an \<open>s\<close> that holds \<open>sep\<close>, \<^verbatim>\<open>s.str_split(sep)\<close> and
  \<^verbatim>\<open>sep.str_join(parts)\<close>.\<close>

definition split_once :: "char \<Rightarrow> string \<Rightarrow> string \<times> string" where
  "split_once sep s = (takeWhile (\<lambda>c. c \<noteq> sep) s, drop 1 (dropWhile (\<lambda>c. c \<noteq> sep) s))"

fun str_split :: "char \<Rightarrow> string \<Rightarrow> string list" where
  "str_split sep [] = [[]]"
| "str_split sep (c # s) =
     (if c = sep then [] # str_split sep s
      else (case str_split sep s of [] \<Rightarrow> [[c]] | part # parts \<Rightarrow> (c # part) # parts))"

fun str_join :: "char \<Rightarrow> string list \<Rightarrow> string" where
  "str_join sep [] = []"
| "str_join sep [part] = part"
| "str_join sep (part # parts) = part @ sep # str_join sep parts"

text \<open>\<^verbatim>\<open>_splitnetloc(url, 2)\<close>: the network location ends at the first of \<^verbatim>\<open>/?#\<close>.\<close>

definition splitnetloc :: "string \<Rightarrow> string \<times> string" where
  "splitnetloc url =
     (takeWhile (\<lambda>c. c \<notin> set ''/?#'') (drop 2 url),
      dropWhile (\<lambda>c. c \<notin> set ''/?#'') (drop 2 url))"

text \<open>\<^verbatim>\<open>_check_bracketed_host\<close>: a bracketed host that starts with \<^verbatim>\<open>v\<close> has to match
  \<^verbatim>\<open>v[a-fA-F0-9]+\..+\<close>; any other has to be an IPv6 address for the \<^verbatim>\<open>ipaddress\<close>
  module, whose verdict is the parameter \<open>is_ipv6\<close>. The function tells whether the
  host passes.\<close>

definition check_bracketed_host :: "(string \<Rightarrow> bool) \<Rightarrow> string \<Rightarrow> bool" where
  "check_bracketed_host is_ipv6 hostname =
     (if take 1 hostname = ''v''
      then (let hex = takeWhile (\<lambda>c. c \<in> set ''abcdefABCDEF0123456789'') (drop 1 hostname);
                rest = dropWhile (\<lambda>c. c \<in> set ''abcdefABCDEF0123456789'') (drop 1 hostname)
            in hex \<noteq> [] \<and> take 1 rest = ''.'' \<and> drop 1 rest \<noteq> [] \<and>
               CHR 0x0A \<notin> set (drop 1 rest))
      else is_ipv6 hostname)"

text \<open>\<^verbatim>\<open>urlsplit(url, scheme)\<close>. Its last check, \<^verbatim>\<open>_checknetloc\<close>, raises when the NFKC
  form of a non-ASCII network location holds one of \<^verbatim>\<open>/?#@:\<close>; no character below 256
  has such a form, so with these strings it never raises.\<close>

definition urlsplit ::
  "(string \<Rightarrow> bool) \<Rightarrow> string \<Rightarrow> string \<Rightarrow>
   error + string \<times> string \<times> string \<times> string \<times> string" where
  "urlsplit is_ipv6 url0 scheme0 =
     (let url = dropWhile WHATWG_C0_CONTROL_OR_SPACE url0;
          scheme = rev (dropWhile WHATWG_C0_CONTROL_OR_SPACE
                          (rev (dropWhile WHATWG_C0_CONTROL_OR_SPACE scheme0)));
          url = filter (\<lambda>c. c \<notin> set UNSAFE_URL_BYTES_TO_REMOVE) url;
          scheme = filter (\<lambda>c. c \<notin> set UNSAFE_URL_BYTES_TO_REMOVE) scheme;
          i = length (takeWhile (\<lambda>c. c \<noteq> CHR '':'') url);
          (scheme, url) =
            (if CHR '':'' \<in> set url \<and> i > 0 \<and> hd url \<in> set ascii_letters \<and>
                list_all (\<lambda>c. c \<in> set scheme_chars) (take i url)
             then (str_lower (take i url), drop (i + 1) url)
             else (scheme, url));
          (netloc, url) = (if take 2 url = ''//'' then splitnetloc url else ('''', url))
      in if (CHR ''['' \<in> set netloc \<and> CHR '']'' \<notin> set netloc) \<or>
            (CHR '']'' \<in> set netloc \<and> CHR ''['' \<notin> set netloc)
         then Inl ValueError
         else if CHR ''['' \<in> set netloc \<and> CHR '']'' \<in> set netloc \<and>
                 \<not> check_bracketed_host is_ipv6
                     (takeWhile (\<lambda>c. c \<noteq> CHR '']'')
                        (drop 1 (dropWhile (\<lambda>c. c \<noteq> CHR ''['') netloc)))
         then Inl ValueError
         else
           let (url, fragment) = (if CHR ''#'' \<in> set url then split_once (CHR ''#'') url
                                  else (url, ''''));
               (url, query) = (if CHR ''?'' \<in> set url then split_once (CHR ''?'') url
                               else (url, ''''))
           in Inr (scheme, netloc, url, query, fragment))"

text \<open>\<^verbatim>\<open>_splitparams\<close>: the parameters start at the first \<^verbatim>\<open>;\<close> of the last segment.\<close>

definition splitparams :: "string \<Rightarrow> string \<times> string" where
  "splitparams url =
     (let tail = rev (takeWhile (\<lambda>c. c \<noteq> CHR ''/'') (rev url));
          front = take (length url - length tail) url
      in if CHR '';'' \<in> set tail
         then (front @ takeWhile (\<lambda>c. c \<noteq> CHR '';'') tail,
               drop 1 (dropWhile (\<lambda>c. c \<noteq> CHR '';'') tail))
         else (url, ''''))"

definition urlparse ::
  "(string \<Rightarrow> bool) \<Rightarrow> string \<Rightarrow> string \<Rightarrow>
   error + string \<times> string \<times> string \<times> string \<times> string \<times> string" where
  "urlparse is_ipv6 url0 scheme0 =
     (case urlsplit is_ipv6 url0 scheme0 of
        Inl e \<Rightarrow> Inl e
      | Inr (scheme, netloc, url, query, fragment) \<Rightarrow>
          let (url, params) = (if scheme \<in> set uses_params \<and> CHR '';'' \<in> set url
                               then splitparams url else (url, ''''))
          in Inr (scheme, netloc, url, params, query, fragment))"

definition urlunsplit :: "string \<times> string \<times> string \<times> string \<times> string \<Rightarrow> string" where
  "urlunsplit components =
     (case components of (scheme, netloc, url, query, fragment) \<Rightarrow>
        let url = (if netloc \<noteq> [] \<or> (scheme \<noteq> [] \<and> scheme \<in> set uses_netloc) \<or>
                      take 2 url = ''//''
                   then ''//'' @ netloc @
                        (if url \<noteq> [] \<and> take 1 url \<noteq> ''/'' then ''/'' @ url else url)
                   else url);
            url = (if scheme \<noteq> [] then scheme @ '':'' @ url else url);
            url = (if query \<noteq> [] then url @ ''?'' @ query else url);
            url = (if fragment \<noteq> [] then url @ ''#'' @ fragment else url)
        in url)"

definition urlunparse ::
  "string \<times> string \<times> string \<times> string \<times> string \<times> string \<Rightarrow> string" where
  "urlunparse components =
     (case components of (scheme, netloc, url, params, query, fragment) \<Rightarrow>
        let url = (if params \<noteq> [] then url @ '';'' @ params else url)
        in urlunsplit (scheme, netloc, url, query, fragment))"

text \<open>The loop of \<^verbatim>\<open>urljoin\<close> over the segments: \<^verbatim>\<open>..\<close> pops, if there is something to
  pop, \<^verbatim>\<open>.\<close> is skipped.\<close>

fun resolve :: "string list \<Rightarrow> string list \<Rightarrow> string list" where
  "resolve [] resolved_path = resolved_path"
| "resolve (seg # segments) resolved_path =
     (if seg = ''..'' then resolve segments (butlast resolved_path)
      else if seg = ''.'' then resolve segments resolved_path
      else resolve segments (resolved_path @ [seg]))"

definition urljoin :: "(string \<Rightarrow> bool) \<Rightarrow> string \<Rightarrow> string \<Rightarrow> error + string" where
  "urljoin is_ipv6 base url =
     (if base = [] then Inr url
      else if url = [] then Inr base
      else
        case urlparse is_ipv6 base '''' of
          Inl e \<Rightarrow> Inl e
        | Inr (bscheme, bnetloc, bpath, bparams, bquery, bfragment) \<Rightarrow>
       (case urlparse is_ipv6 url bscheme of
          Inl e \<Rightarrow> Inl e
        | Inr (scheme, netloc, upath, params, query, fragment) \<Rightarrow>
            if scheme \<noteq> bscheme \<or> scheme \<notin> set uses_relative then Inr url
            else if scheme \<in> set uses_netloc \<and> netloc \<noteq> []
            then Inr (urlunparse (scheme, netloc, upath, params, query, fragment))
            else
              let netloc = (if scheme \<in> set uses_netloc then bnetloc else netloc) in
              if upath = [] \<and> params = []
              then Inr (urlunparse (scheme, netloc, bpath, bparams,
                                    if query = [] then bquery else query, fragment))
              else
                let base_parts = str_split (CHR ''/'') bpath;
                    base_parts = (if last base_parts \<noteq> [] then butlast base_parts
                                  else base_parts);
                    segments =
                      (if take 1 upath = ''/'' then str_split (CHR ''/'') upath
                       else let segments = base_parts @ str_split (CHR ''/'') upath
                            in if length segments < 2 then segments
                               else hd segments #
                                    filter (\<lambda>seg. seg \<noteq> []) (butlast (tl segments)) @
                                    [last segments]);
                    resolved_path = resolve segments [];
                    resolved_path = (if last segments = ''.'' \<or> last segments = ''..''
                                     then resolved_path @ [[]] else resolved_path);
                    joined = str_join (CHR ''/'') resolved_path
                in Inr (urlunparse (scheme, netloc, if joined = [] then ''/'' else joined,
                                    params, query, fragment))))"

section \<open>The source\<close>

text \<open>\<^verbatim>\<open>_get_portal_url\<close>.\<close>

definition get_portal_url :: "(string \<Rightarrow> bool) \<Rightarrow> Configuration \<Rightarrow> string \<Rightarrow> error + string" where
  "get_portal_url is_ipv6 config p =
     (let subdomain = (if country config \<noteq> ''cn'' then ''portal-'' @ continent config
                       else ''portal'')
      in urljoin is_ipv6 (''https://'' @ subdomain @ ''.ecouser.net/api/'') p)"

text \<open>\<^verbatim>\<open>ApiClient.get_devices\<close>: the loop over \<^verbatim>\<open>resp["devices"]\<close>, then the method.\<close>

fun devices_loop :: "pyval list \<Rightarrow> DeviceInfo list \<Rightarrow> DeviceInfo list io" where
  "devices_loop [] devices = io_return devices"
| "devices_loop (device # rest) devices =
     io_bind (io_of (py_get device ''company'')) (\<lambda>company.
       if py_eq company (PyStr ''eco-ng'')
       then devices_loop rest (devices @ [DeviceInfo device])
       else io_bind
              (io_emit (Log_debug ''Skipping device as it is not supported: %s'' device))
              (\<lambda>_. devices_loop rest devices))"

definition get_devices :: "deps \<Rightarrow> world \<Rightarrow> DeviceInfo list io" where
  "get_devices c w =
     io_bind (call_authenticate w) (\<lambda>creds.
     let body = [(''userid'', PyStr (user_id creds)), (''todo'', PyStr ''GetGlobalDeviceList'')] in
     io_bind (io_emit (Build body)) (\<lambda>_.
     io_bind (call_post w \<lparr>path = PATH_API_APPSVR_APP c, json = body, query_params = None,
                           headers = None, credentials = creds\<rparr>) (\<lambda>resp.
     io_bind (io_emit Validate) (\<lambda>_.
     if py_eq (dict_get resp ''code'' PyNone) (PyInt 0)
     then io_bind (io_of (getitem (PyDict resp) ''devices'')) (\<lambda>ds.
          io_bind (io_of (py_iter ds)) (\<lambda>items.
          devices_loop items []))
     else io_bind (io_emit (Log_error ''Failed to get devices'')) (\<lambda>_.
          io_bind (io_of (getitem (PyDict resp) ''error'')) (\<lambda>err.
          io_bind (io_of (getitem (PyDict resp) ''errno'')) (\<lambda>errno.
          io_raise (ApiError (''failure '' @ py_str (repr c) err @ '' ('' @
                              py_str (repr c) errno @ '') on getting devices'')))))))))"

text \<open>\<^verbatim>\<open>ApiClient.get_product_iot_map\<close>. In \<^verbatim>\<open>result[entry["classid"]] = entry["product"]\<close>
  the right side is evaluated first. The empty body is an argument that stands before
  the awaited credentials, so it is evaluated before them.\<close>

fun product_loop :: "pyval list \<Rightarrow> product_map \<Rightarrow> error + product_map" where
  "product_loop [] result = Inr result"
| "product_loop (entry # rest) result =
     (case getitem entry ''product'' of
        Inl e \<Rightarrow> Inl e
      | Inr product \<Rightarrow>
          (case getitem entry ''classid'' of
             Inl e \<Rightarrow> Inl e
           | Inr classid \<Rightarrow>
               (case setitem result classid product of
                  Inl e \<Rightarrow> Inl e
                | Inr result' \<Rightarrow> product_loop rest result')))"

definition get_product_iot_map :: "deps \<Rightarrow> world \<Rightarrow> product_map io" where
  "get_product_iot_map c w =
     io_bind (io_emit (Build [])) (\<lambda>_.
     io_bind (call_authenticate w) (\<lambda>creds.
     io_bind (call_post w \<lparr>path = PATH_API_PIM_PRODUCT_IOT_MAP c, json = [], query_params = None,
                           headers = None, credentials = creds\<rparr>) (\<lambda>resp.
     io_bind (io_emit Validate) (\<lambda>_.
     if py_in (dict_get resp ''code'' PyNone) [PyInt 0, PyStr ''0000'']
     then io_bind (io_of (getitem (PyDict resp) ''data'')) (\<lambda>data.
          io_bind (io_of (py_iter data)) (\<lambda>entries.
          io_of (product_loop entries [])))
     else io_bind (io_emit (Log_error ''Failed to get product iot map'')) (\<lambda>_.
          io_bind (io_of (getitem (PyDict resp) ''error'')) (\<lambda>err.
          io_bind (io_of (getitem (PyDict resp) ''errno'')) (\<lambda>errno.
          io_raise (ApiError (''failure '' @ py_str (repr c) err @ '' ('' @
                              py_str (repr c) errno @ '') on getting product iot map'')))))))))"

text \<open>\<^verbatim>\<open>ApiClient.send_command\<close>: the two branches give the path, the body and the
  first query parameters; the credentials are acquired after them.\<close>

definition send_command :: "deps \<Rightarrow> world \<Rightarrow> Command \<Rightarrow> DeviceInfo \<Rightarrow> dict io" where
  "send_command c w command device_info =
     (let query_params0 = [] in
     io_bind
       (if name command = GetCleanLogs_name c
        then
          io_bind (io_of (did device_info)) (\<lambda>d.
          io_bind (io_of (resource device_info)) (\<lambda>r.
          let body = [(''td'', PyStr (name command)), (''did'', d), (''resource'', r)] in
          io_bind (io_emit (Build body)) (\<lambda>_.
          io_return (PATH_API_LG_LOG c, body, query_params0))))
        else
          io_bind (call_now w) (\<lambda>ts.
          let payload = [(''header'', PyDict [(''pri'', PyStr ''1''), (''ts'', PyFloat ts),
                                             (''tzm'', PyInt 480), (''ver'', PyStr ''0.0.50'')])];
              payload = (if length (args command) > 0
                         then dict_set payload ''body'' (PyDict [(''data'', PyList (args command))])
                         else payload) in
          io_bind (io_of (did device_info)) (\<lambda>d.
          io_bind (io_of (resource device_info)) (\<lambda>r.
          io_bind (io_of (get_class device_info)) (\<lambda>cl.
          let body = [(''cmdName'', PyStr (name command)), (''payload'', PyDict payload),
                      (''payloadType'', PyStr ''j''), (''td'', PyStr ''q''),
                      (''toId'', d), (''toRes'', r), (''toType'', cl)] in
          io_bind (io_emit (Build body)) (\<lambda>_.
          io_bind (io_of (getitem (PyDict body) ''toType'')) (\<lambda>mid.
          io_bind (io_of (getitem (PyDict body) ''toId'')) (\<lambda>to_id.
          io_return (PATH_API_IOT_DEVMANAGER c, body,
                     dict_update query_params0 [(''mid'', mid), (''did'', to_id)])))))))))
       (\<lambda>(p, body, query).
          io_bind (call_authenticate w) (\<lambda>creds.
          io_bind (io_of (getitem (PyDict body) ''td'')) (\<lambda>td.
          let query = dict_update query
                        [(''td'', td), (''u'', PyStr (user_id creds)), (''cv'', PyStr ''1.67.3''),
                         (''t'', PyStr ''a''), (''av'', PyStr ''1.3.1'')] in
          call_post w \<lparr>path = p, json = body, query_params = Some query,
                       headers = Some REQUEST_HEADERS, credentials = creds\<rparr>))))"

section \<open>Reading requests, replies and traces\<close>

text \<open>The requests an operation handed to the transport, in order.\<close>

fun requests :: "event list \<Rightarrow> request list" where
  "requests [] = []"
| "requests (Post r # t) = r # requests t"
| "requests (_ # t) = requests t"

text \<open>A value is an object when it is a dict; \<open>field v k\<close> is the entry \<open>k\<close> of an
  object, if it has one.\<close>

definition is_object :: "pyval \<Rightarrow> bool" where
  "is_object v = (case v of PyDict d \<Rightarrow> True | _ \<Rightarrow> False)"

definition field :: "pyval \<Rightarrow> string \<Rightarrow> pyval option" where
  "field v k = (case v of PyDict d \<Rightarrow> map_of d k | _ \<Rightarrow> None)"

text \<open>An entry of the product map's \<^verbatim>\<open>data\<close> as the endpoint sends it: an object with a
  \<^verbatim>\<open>product\<close> and a hashable \<^verbatim>\<open>classid\<close>.\<close>

definition entry_ok :: "pyval \<Rightarrow> bool" where
  "entry_ok e =
     (case (field e ''product'', field e ''classid'') of
        (Some p, Some k) \<Rightarrow> hashable k
      | _ \<Rightarrow> False)"

text \<open>The four stages the spec names, and the stage an event of the trace belongs to.
  A log record belongs to none; reading the clock is part of building the envelope,
  whose end \<open>Build\<close> marks.\<close>

datatype stage = Acquire_credentials | Build_request | Invoke_transport | Validate_reply

fun stage_of :: "event \<Rightarrow> stage option" where
  "stage_of Authenticate = Some Acquire_credentials"
| "stage_of (Build b) = Some Build_request"
| "stage_of (Post r) = Some Invoke_transport"
| "stage_of Validate = Some Validate_reply"
| "stage_of _ = None"

fun stages :: "event list \<Rightarrow> stage list" where
  "stages [] = []"
| "stages (e # t) = (case stage_of e of None \<Rightarrow> stages t | Some s \<Rightarrow> s # stages t)"

text \<open>The order as the spec words it: credentials, then the request, then the
  transport, then validation. A trace follows it when no stage comes after a later
  one.\<close>

fun spec_rank :: "stage \<Rightarrow> nat" where
  "spec_rank Acquire_credentials = 0"
| "spec_rank Build_request = 1"
| "spec_rank Invoke_transport = 2"
| "spec_rank Validate_reply = 3"

definition spec_stage_order :: "event list \<Rightarrow> bool" where
  "spec_stage_order t = sorted (map spec_rank (stages t))"

text \<open>The host the spec gives the portal URL of a configuration, and the host of an
  \<^verbatim>\<open>https\<close> URL: what stands between \<^verbatim>\<open>https://\<close> and the next \<^verbatim>\<open>/\<close>, \<^verbatim>\<open>?\<close> or \<^verbatim>\<open>#\<close>.\<close>

definition spec_host :: "Configuration \<Rightarrow> string" where
  "spec_host config =
     (if country config = ''cn'' then ''portal.ecouser.net''
      else ''portal-'' @ continent config @ ''.ecouser.net'')"

definition url_host :: "string \<Rightarrow> string option" where
  "url_host url =
     (if take 8 url = ''https://''
      then Some (takeWhile (\<lambda>c. c \<notin> set ''/?#'') (drop 8 url))
      else None)"

text \<open>A path is a relative reference when \<^verbatim>\<open>urlparse\<close>, with \<^verbatim>\<open>https\<close> as the default,
  finds no other scheme and no network location in it. A continent is a region token
  when it is made of letters, digits and hyphens. A plain path is made of letters,
  digits and \<^verbatim>\<open>-._~/\<close> and does not begin with \<^verbatim>\<open>//\<close>.\<close>

definition relative_reference :: "(string \<Rightarrow> bool) \<Rightarrow> string \<Rightarrow> bool" where
  "relative_reference is_ipv6 p =
     (case urlparse is_ipv6 p ''https'' of
        Inl e \<Rightarrow> False
      | Inr (scheme, netloc, rest) \<Rightarrow> scheme = ''https'' \<and> netloc = [])"

definition region_token :: "string \<Rightarrow> bool" where
  "region_token s = list_all (\<lambda>c. c \<in> set (ascii_letters @ ''0123456789-'')) s"

definition plain_path :: "string \<Rightarrow> bool" where
  "plain_path p =
     (list_all (\<lambda>c. c \<in> set (ascii_letters @ ''0123456789-._~/'')) p \<and> take 2 p \<noteq> ''//'')"

text \<open>Sample values for the worked examples: parameters, collaborators that answer
  every request with a given reply, and a device.\<close>

definition sample_deps :: deps where
  "sample_deps =
     \<lparr>PATH_API_APPSVR_APP = ''appsvr'', PATH_API_IOT_DEVMANAGER = ''devmanager'',
      PATH_API_LG_LOG = ''lg-log'', PATH_API_PIM_PRODUCT_IOT_MAP = ''pim'',
      GetCleanLogs_name = ''GetCleanLogs'', repr = (\<lambda>v. ''<repr>'')\<rparr>"

definition sample_world :: "dict \<Rightarrow> world" where
  "sample_world resp =
     \<lparr>authenticate = Inr \<lparr>user_id = ''user-1''\<rparr>, post = (\<lambda>req. Inr resp),
      timestamp = Finite 1700000000\<rparr>"

definition sample_device :: DeviceInfo where
  "sample_device =
     DeviceInfo (PyDict [(''did'', PyStr ''d1''), (''resource'', PyStr ''r1''),
                         (''company'', PyStr ''eco-ng''), (''class'', PyStr ''c1'')])"

section \<open>Laws of the effect layer and of the values\<close>

lemma io_bind_pair [simp]:
  "io_bind (r, t) f = (case r of Inl e \<Rightarrow> (Inl e, t) | Inr x \<Rightarrow> (fst (f x), t @ snd (f x)))"
  by (simp add: io_bind_def split: prod.splits sum.splits)

lemmas io_simps = io_return_def io_raise_def io_of_def io_emit_def
  call_authenticate_def call_post_def call_now_def Let_def

lemma py_eq_str [simp]: "py_eq x (PyStr s) \<longleftrightarrow> x = PyStr s"
  by (cases x) auto

text \<open>What equals \<^verbatim>\<open>0\<close>: the int, \<^verbatim>\<open>False\<close> and the float zero.\<close>

lemma py_eq_zero:
  "py_eq x (PyInt 0) \<longleftrightarrow> x = PyInt 0 \<or> x = PyBool False \<or> x = PyFloat (Finite 0)"
  by (cases x) auto

lemma stages_append [simp]: "stages (a @ b) = stages a @ stages b"
  by (induction a) (simp_all split: option.splits)

section \<open>The device list\<close>

lemma devices_loop_objects:
  "list_all is_object ds \<Longrightarrow>
   fst (devices_loop ds acc) =
     Inr (acc @ map DeviceInfo (filter (\<lambda>d. field d ''company'' = Some (PyStr ''eco-ng'')) ds))"
proof (induction ds arbitrary: acc)
  case Nil
  then show ?case by (simp add: io_simps)
next
  case (Cons d ds)
  then obtain kvs where d: "d = PyDict kvs" by (cases d) (auto simp: is_object_def)
  from Cons.prems have rest: "list_all is_object ds" by simp
  show ?case
    using Cons.IH [OF rest]
    by (simp add: d io_simps field_def dict_get_def split: option.splits)
qed

lemma devices_loop_stages: "stages (snd (devices_loop ds acc)) = []"
proof (induction ds arbitrary: acc)
  case Nil
  then show ?case by (simp add: io_simps)
next
  case (Cons d ds)
  then show ?case
    by (cases "py_get d ''company''") (simp_all add: io_simps)
qed

text \<open>
  C6. When the transport's reply to the device-list request has a code that is not
  \<^verbatim>\<open>0\<close> (or has none), \<^verbatim>\<open>get_devices\<close> raises \<^verbatim>\<open>ApiError\<close> with the message
  \<^verbatim>\<open>failure {error} ({errno}) on getting devices\<close>, \<open>error\<close> and \<open>errno\<close> being the
  reply's entries of those names. For the reply
  \<^verbatim>\<open>{"code":1,"error":"bad","errno":500}\<close> the message is
  \<^verbatim>\<open>failure bad (500) on getting devices\<close>.
\<close>

theorem get_devices_failure_message:
  assumes "authenticate w = Inr creds"
    and "post w \<lparr>path = PATH_API_APPSVR_APP c,
                 json = [(''userid'', PyStr (user_id creds)), (''todo'', PyStr ''GetGlobalDeviceList'')],
                 query_params = None, headers = None, credentials = creds\<rparr> = Inr resp"
    and "\<not> py_eq (dict_get resp ''code'' PyNone) (PyInt 0)"
    and "map_of resp ''error'' = Some e"
    and "map_of resp ''errno'' = Some n"
  shows "fst (get_devices c w) =
           Inl (ApiError (''failure '' @ py_str (repr c) e @ '' ('' @ py_str (repr c) n @
                          '') on getting devices''))"
  using assms by (simp add: get_devices_def io_simps)

theorem get_devices_failure_message_witness:
  "fst (get_devices sample_deps
          (sample_world [(''code'', PyInt 1), (''error'', PyStr ''bad''), (''errno'', PyInt 500)])) =
     Inl (ApiError ''failure bad (500) on getting devices'')"
  using get_devices_failure_message
    [of "sample_world [(''code'', PyInt 1), (''error'', PyStr ''bad''), (''errno'', PyInt 500)]"
        "\<lparr>user_id = ''user-1''\<rparr>" sample_deps
        "[(''code'', PyInt 1), (''error'', PyStr ''bad''), (''errno'', PyInt 500)]"
        "PyStr ''bad''" "PyInt 500"]
  by (simp add: sample_world_def dict_get_def string_of_int_def string_of_nat.simps)

text \<open>
  C1. When the reply to the device-list request has code \<^verbatim>\<open>0\<close> and its \<^verbatim>\<open>devices\<close> is
  a list of objects, \<^verbatim>\<open>get_devices\<close> returns one \<^verbatim>\<open>DeviceInfo\<close> for each entry whose
  \<^verbatim>\<open>company\<close> is \<^verbatim>\<open>"eco-ng"\<close>, in the order of the reply, made from that entry (so its
  \<^verbatim>\<open>did\<close>, \<^verbatim>\<open>resource\<close> and class are the entry's); every other entry, one without a
  \<^verbatim>\<open>company\<close> included, is left out.
\<close>

theorem get_devices_filters_company:
  assumes "authenticate w = Inr creds"
    and "post w \<lparr>path = PATH_API_APPSVR_APP c,
                 json = [(''userid'', PyStr (user_id creds)), (''todo'', PyStr ''GetGlobalDeviceList'')],
                 query_params = None, headers = None, credentials = creds\<rparr> = Inr resp"
    and "py_eq (dict_get resp ''code'' PyNone) (PyInt 0)"
    and "map_of resp ''devices'' = Some (PyList ds)"
    and "list_all is_object ds"
  shows "\<exists>devices.
           fst (get_devices c w) = Inr devices \<and>
           devices = map DeviceInfo (filter (\<lambda>d. field d ''company'' = Some (PyStr ''eco-ng'')) ds) \<and>
           map did devices =
             map (\<lambda>d. getitem d ''did'') (filter (\<lambda>d. field d ''company'' = Some (PyStr ''eco-ng'')) ds) \<and>
           map resource devices =
             map (\<lambda>d. getitem d ''resource'') (filter (\<lambda>d. field d ''company'' = Some (PyStr ''eco-ng'')) ds) \<and>
           map get_class devices =
             map (\<lambda>d. getitem d ''class'') (filter (\<lambda>d. field d ''company'' = Some (PyStr ''eco-ng'')) ds)"
  using assms devices_loop_objects [of ds "[]"]
  by (simp add: get_devices_def io_simps comp_def)

theorem get_devices_filters_company_witness:
  "fst (get_devices sample_deps
          (sample_world
             [(''code'', PyInt 0),
              (''devices'', PyList
                 [PyDict [(''did'', PyStr ''d1''), (''resource'', PyStr ''r1''),
                          (''company'', PyStr ''eco-ng''), (''class'', PyStr ''c1'')],
                  PyDict [(''did'', PyStr ''d2''), (''resource'', PyStr ''r2''),
                          (''company'', PyStr ''other'')]])])) =
     Inr [DeviceInfo (PyDict [(''did'', PyStr ''d1''), (''resource'', PyStr ''r1''),
                              (''company'', PyStr ''eco-ng''), (''class'', PyStr ''c1'')])]"
  using get_devices_filters_company
    [of "sample_world
             [(''code'', PyInt 0),
              (''devices'', PyList
                 [PyDict [(''did'', PyStr ''d1''), (''resource'', PyStr ''r1''),
                          (''company'', PyStr ''eco-ng''), (''class'', PyStr ''c1'')],
                  PyDict [(''did'', PyStr ''d2''), (''resource'', PyStr ''r2''),
                          (''company'', PyStr ''other'')]])]"
        "\<lparr>user_id = ''user-1''\<rparr>" sample_deps
        "[(''code'', PyInt 0),
              (''devices'', PyList
                 [PyDict [(''did'', PyStr ''d1''), (''resource'', PyStr ''r1''),
                          (''company'', PyStr ''eco-ng''), (''class'', PyStr ''c1'')],
                  PyDict [(''did'', PyStr ''d2''), (''resource'', PyStr ''r2''),
                          (''company'', PyStr ''other'')]])]"
        "[PyDict [(''did'', PyStr ''d1''), (''resource'', PyStr ''r1''),
                          (''company'', PyStr ''eco-ng''), (''class'', PyStr ''c1'')],
                  PyDict [(''did'', PyStr ''d2''), (''resource'', PyStr ''r2''),
                          (''company'', PyStr ''other'')]]"]
  by (simp add: sample_world_def dict_get_def is_object_def field_def)

section \<open>The product map\<close>

lemma py_in_codes:
  "py_in x [PyInt 0, PyStr ''0000''] \<longleftrightarrow> py_eq x (PyInt 0) \<or> py_eq x (PyStr ''0000'')"
  by (simp add: py_in_def)

lemma product_loop_ok:
  "list_all entry_ok es \<Longrightarrow> \<exists>m. product_loop es acc = Inr m"
proof (induction es arbitrary: acc)
  case Nil
  then show ?case by simp
next
  case (Cons e es)
  from Cons.prems have e: "entry_ok e" and rest: "list_all entry_ok es" by simp_all
  from e obtain d p k where "e = PyDict d" "map_of d ''product'' = Some p"
    "map_of d ''classid'' = Some k" "hashable k"
    by (cases e) (auto simp: entry_ok_def field_def split: option.splits)
  then show ?case
    using Cons.IH [OF rest] by (simp add: setitem_def)
qed

text \<open>
  C2. \<^verbatim>\<open>get_product_iot_map\<close> succeeds exactly when the reply's code equals \<^verbatim>\<open>0\<close> or
  \<^verbatim>\<open>"0000"\<close> (as \<^verbatim>\<open>==\<close> compares: \<^const>\<open>py_eq\<close>); for every other code, and for a reply
  with none, it raises \<^verbatim>\<open>ApiError\<close> with the message
  \<^verbatim>\<open>failure {error} ({errno}) on getting product iot map\<close>. The reply is one the
  endpoint sends: with a success code it carries \<^verbatim>\<open>data\<close>, a list of entries with a
  \<^verbatim>\<open>product\<close> and a hashable \<^verbatim>\<open>classid\<close>; otherwise it carries \<^verbatim>\<open>error\<close> and
  \<^verbatim>\<open>errno\<close>.
\<close>

theorem get_product_iot_map_success_codes:
  assumes "authenticate w = Inr creds"
    and "post w \<lparr>path = PATH_API_PIM_PRODUCT_IOT_MAP c, json = [], query_params = None,
                 headers = None, credentials = creds\<rparr> = Inr resp"
    and "dict_get resp ''code'' PyNone = code"
    and "py_eq code (PyInt 0) \<or> py_eq code (PyStr ''0000'') \<Longrightarrow>
           map_of resp ''data'' = Some (PyList es) \<and> list_all entry_ok es"
    and "\<not> (py_eq code (PyInt 0) \<or> py_eq code (PyStr ''0000'')) \<Longrightarrow>
           map_of resp ''error'' = Some e \<and> map_of resp ''errno'' = Some n"
  shows "((\<exists>m. fst (get_product_iot_map c w) = Inr m) \<longleftrightarrow>
            py_eq code (PyInt 0) \<or> py_eq code (PyStr ''0000'')) \<and>
         (\<not> (py_eq code (PyInt 0) \<or> py_eq code (PyStr ''0000'')) \<longrightarrow>
            fst (get_product_iot_map c w) =
              Inl (ApiError (''failure '' @ py_str (repr c) e @ '' ('' @ py_str (repr c) n @
                             '') on getting product iot map'')))"
proof (cases "py_eq code (PyInt 0) \<or> py_eq code (PyStr ''0000'')")
  case True
  with assms(4) have data: "map_of resp ''data'' = Some (PyList es)" and ok: "list_all entry_ok es"
    by simp_all
  from product_loop_ok [OF ok] obtain m where "product_loop es [] = Inr m" by blast
  with True assms(1-3) data show ?thesis
    by (simp add: get_product_iot_map_def io_simps py_in_codes del: py_eq_str)
next
  case False
  with assms(5) have "map_of resp ''error'' = Some e" "map_of resp ''errno'' = Some n"
    by simp_all
  with False assms(1-3) show ?thesis
    by (simp add: get_product_iot_map_def io_simps py_in_codes del: py_eq_str)
qed

theorem get_product_iot_map_success_codes_witness:
  "(\<exists>m. fst (get_product_iot_map sample_deps
            (sample_world [(''code'', PyStr ''0000''),
                           (''data'', PyList [PyDict [(''classid'', PyStr ''c1''),
                                                      (''product'', PyStr ''p1'')]])])) = Inr m) \<and>
   fst (get_product_iot_map sample_deps
          (sample_world [(''code'', PyInt 1), (''error'', PyStr ''bad''), (''errno'', PyInt 500)])) =
     Inl (ApiError ''failure bad (500) on getting product iot map'')"
proof -
  have ok: "\<exists>m. fst (get_product_iot_map sample_deps
            (sample_world [(''code'', PyStr ''0000''),
                           (''data'', PyList [PyDict [(''classid'', PyStr ''c1''),
                                                      (''product'', PyStr ''p1'')]])])) = Inr m"
    using get_product_iot_map_success_codes
      [of "sample_world [(''code'', PyStr ''0000''),
                           (''data'', PyList [PyDict [(''classid'', PyStr ''c1''),
                                                      (''product'', PyStr ''p1'')]])]"
          "\<lparr>user_id = ''user-1''\<rparr>" sample_deps
          "[(''code'', PyStr ''0000''),
                           (''data'', PyList [PyDict [(''classid'', PyStr ''c1''),
                                                      (''product'', PyStr ''p1'')]])]"
          "PyStr ''0000''"
          "[PyDict [(''classid'', PyStr ''c1''), (''product'', PyStr ''p1'')]]"
          PyNone PyNone]
    by (simp add: sample_world_def dict_get_def entry_ok_def field_def)
  have bad: "fst (get_product_iot_map sample_deps
          (sample_world [(''code'', PyInt 1), (''error'', PyStr ''bad''), (''errno'', PyInt 500)])) =
     Inl (ApiError ''failure bad (500) on getting product iot map'')"
    using get_product_iot_map_success_codes
      [of "sample_world [(''code'', PyInt 1), (''error'', PyStr ''bad''), (''errno'', PyInt 500)]"
          "\<lparr>user_id = ''user-1''\<rparr>" sample_deps
          "[(''code'', PyInt 1), (''error'', PyStr ''bad''), (''errno'', PyInt 500)]"
          "PyInt 1" "[]" "PyStr ''bad''" "PyInt 500"]
    by (simp add: sample_world_def dict_get_def string_of_int_def string_of_nat.simps)
  from ok bad show ?thesis by blast
qed

section \<open>A reply without a code\<close>

lemma get_devices_failure_branch:
  assumes "\<not> py_eq (dict_get resp ''code'' PyNone) (PyInt 0)"
  shows "get_devices c (w\<lparr>post := \<lambda>_. Inr resp\<rparr>) =
     (case authenticate w of
        Inl x \<Rightarrow> (Inl (Collaborator x), [Authenticate])
      | Inr creds \<Rightarrow>
         (case map_of resp ''error'' of
            None \<Rightarrow> Inl (KeyError ''error'')
          | Some e \<Rightarrow>
              (case map_of resp ''errno'' of
                 None \<Rightarrow> Inl (KeyError ''errno'')
               | Some n \<Rightarrow> Inl (ApiError (''failure '' @ py_str (repr c) e @ '' ('' @
                                          py_str (repr c) n @ '') on getting devices''))),
          [Authenticate,
           Build [(''userid'', PyStr (user_id creds)), (''todo'', PyStr ''GetGlobalDeviceList'')],
           Post \<lparr>path = PATH_API_APPSVR_APP c,
                 json = [(''userid'', PyStr (user_id creds)), (''todo'', PyStr ''GetGlobalDeviceList'')],
                 query_params = None, headers = None, credentials = creds\<rparr>,
           Validate, Log_error ''Failed to get devices'']))"
  using assms
  by (simp add: get_devices_def io_simps split: sum.splits option.splits)

lemma get_product_iot_map_failure_branch:
  assumes "\<not> py_in (dict_get resp ''code'' PyNone) [PyInt 0, PyStr ''0000'']"
  shows "get_product_iot_map c (w\<lparr>post := \<lambda>_. Inr resp\<rparr>) =
     (case authenticate w of
        Inl x \<Rightarrow> (Inl (Collaborator x), [Build [], Authenticate])
      | Inr creds \<Rightarrow>
         (case map_of resp ''error'' of
            None \<Rightarrow> Inl (KeyError ''error'')
          | Some e \<Rightarrow>
              (case map_of resp ''errno'' of
                 None \<Rightarrow> Inl (KeyError ''errno'')
               | Some n \<Rightarrow> Inl (ApiError (''failure '' @ py_str (repr c) e @ '' ('' @
                                          py_str (repr c) n @ '') on getting product iot map''))),
          [Build [], Authenticate,
           Post \<lparr>path = PATH_API_PIM_PRODUCT_IOT_MAP c, json = [], query_params = None,
                 headers = None, credentials = creds\<rparr>,
           Validate, Log_error ''Failed to get product iot map'']))"
  using assms
  by (simp add: get_product_iot_map_def io_simps split: sum.splits option.splits)

text \<open>
  C10. A reply that has no \<^verbatim>\<open>code\<close> at all is handled by \<^verbatim>\<open>get_devices\<close> and by
  \<^verbatim>\<open>get_product_iot_map\<close> exactly as the same reply with a code \<open>v\<close> that is no success
  code: result and trace are the same, the result is never a success, and it is the
  \<^verbatim>\<open>ApiError\<close> made from the reply's \<^verbatim>\<open>error\<close> and \<^verbatim>\<open>errno\<close> when it has them.
\<close>

theorem missing_code_is_failure:
  assumes "map_of resp ''code'' = None"
    and "\<not> py_eq v (PyInt 0)" and "\<not> py_eq v (PyStr ''0000'')"
  shows "get_devices c (w\<lparr>post := \<lambda>_. Inr resp\<rparr>) =
           get_devices c (w\<lparr>post := \<lambda>_. Inr ((''code'', v) # resp)\<rparr>) \<and>
         get_product_iot_map c (w\<lparr>post := \<lambda>_. Inr resp\<rparr>) =
           get_product_iot_map c (w\<lparr>post := \<lambda>_. Inr ((''code'', v) # resp)\<rparr>) \<and>
         (\<forall>ds. fst (get_devices c (w\<lparr>post := \<lambda>_. Inr resp\<rparr>)) \<noteq> Inr ds) \<and>
         (\<forall>m. fst (get_product_iot_map c (w\<lparr>post := \<lambda>_. Inr resp\<rparr>)) \<noteq> Inr m) \<and>
         (\<forall>creds e n. authenticate w = Inr creds \<and> map_of resp ''error'' = Some e \<and>
              map_of resp ''errno'' = Some n \<longrightarrow>
            fst (get_devices c (w\<lparr>post := \<lambda>_. Inr resp\<rparr>)) =
              Inl (ApiError (''failure '' @ py_str (repr c) e @ '' ('' @ py_str (repr c) n @
                             '') on getting devices'')) \<and>
            fst (get_product_iot_map c (w\<lparr>post := \<lambda>_. Inr resp\<rparr>)) =
              Inl (ApiError (''failure '' @ py_str (repr c) e @ '' ('' @ py_str (repr c) n @
                             '') on getting product iot map'')))"
proof -
  have none: "dict_get resp ''code'' PyNone = PyNone"
    using assms(1) by (simp add: dict_get_def)
  have v: "dict_get ((''code'', v) # resp) ''code'' PyNone = v"
    by (simp add: dict_get_def)
  have d1: "\<not> py_eq (dict_get resp ''code'' PyNone) (PyInt 0)"
    and p1: "\<not> py_in (dict_get resp ''code'' PyNone) [PyInt 0, PyStr ''0000'']"
    by (simp_all add: none py_in_codes)
  have d2: "\<not> py_eq (dict_get ((''code'', v) # resp) ''code'' PyNone) (PyInt 0)"
    and p2: "\<not> py_in (dict_get ((''code'', v) # resp) ''code'' PyNone) [PyInt 0, PyStr ''0000'']"
    using assms(2,3) by (simp_all add: v py_in_codes del: py_eq_str)
  show ?thesis
    by (simp add: get_devices_failure_branch [OF d1] get_devices_failure_branch [OF d2]
        get_product_iot_map_failure_branch [OF p1] get_product_iot_map_failure_branch [OF p2]
        split: sum.splits option.splits)
qed

theorem missing_code_is_failure_witness:
  "get_devices sample_deps
     (sample_world []\<lparr>post := \<lambda>_. Inr [(''error'', PyStr ''bad''), (''errno'', PyInt 500)]\<rparr>) =
   get_devices sample_deps
     (sample_world []\<lparr>post := \<lambda>_. Inr ((''code'', PyInt 1) #
                                          [(''error'', PyStr ''bad''), (''errno'', PyInt 500)])\<rparr>) \<and>
   (\<forall>ds. fst (get_devices sample_deps
           (sample_world []\<lparr>post := \<lambda>_. Inr [(''error'', PyStr ''bad''), (''errno'', PyInt 500)]\<rparr>))
         \<noteq> Inr ds) \<and>
   fst (get_devices sample_deps
          (sample_world []\<lparr>post := \<lambda>_. Inr [(''error'', PyStr ''bad''), (''errno'', PyInt 500)]\<rparr>)) =
     Inl (ApiError ''failure bad (500) on getting devices'') \<and>
   fst (get_product_iot_map sample_deps
          (sample_world []\<lparr>post := \<lambda>_. Inr [(''error'', PyStr ''bad''), (''errno'', PyInt 500)]\<rparr>)) =
     Inl (ApiError ''failure bad (500) on getting product iot map'')"
proof -
  have a: "map_of [(''error'', PyStr ''bad''), (''errno'', PyInt 500)] ''code'' = None" by simp
  have b: "\<not> py_eq (PyInt 1) (PyInt 0)" by simp
  have c: "\<not> py_eq (PyInt 1) (PyStr ''0000'')" by simp
  note t = missing_code_is_failure [OF a b c, of sample_deps "sample_world []"]
  from t have same: "get_devices sample_deps
     (sample_world []\<lparr>post := \<lambda>_. Inr [(''error'', PyStr ''bad''), (''errno'', PyInt 500)]\<rparr>) =
   get_devices sample_deps
     (sample_world []\<lparr>post := \<lambda>_. Inr ((''code'', PyInt 1) #
                                          [(''error'', PyStr ''bad''), (''errno'', PyInt 500)])\<rparr>)"
    and never: "\<forall>ds. fst (get_devices sample_deps
           (sample_world []\<lparr>post := \<lambda>_. Inr [(''error'', PyStr ''bad''), (''errno'', PyInt 500)]\<rparr>))
         \<noteq> Inr ds"
    by blast+
  from t have
    "authenticate (sample_world []) = Inr \<lparr>user_id = ''user-1''\<rparr> \<and>
     map_of [(''error'', PyStr ''bad''), (''errno'', PyInt 500)] ''error'' = Some (PyStr ''bad'') \<and>
     map_of [(''error'', PyStr ''bad''), (''errno'', PyInt 500)] ''errno'' = Some (PyInt 500) \<longrightarrow>
     fst (get_devices sample_deps
          (sample_world []\<lparr>post := \<lambda>_. Inr [(''error'', PyStr ''bad''), (''errno'', PyInt 500)]\<rparr>)) =
       Inl (ApiError (''failure '' @ py_str (repr sample_deps) (PyStr ''bad'') @ '' ('' @
                      py_str (repr sample_deps) (PyInt 500) @ '') on getting devices'')) \<and>
     fst (get_product_iot_map sample_deps
          (sample_world []\<lparr>post := \<lambda>_. Inr [(''error'', PyStr ''bad''), (''errno'', PyInt 500)]\<rparr>)) =
       Inl (ApiError (''failure '' @ py_str (repr sample_deps) (PyStr ''bad'') @ '' ('' @
                      py_str (repr sample_deps) (PyInt 500) @ '') on getting product iot map''))"
    by blast
  then have msgs: "fst (get_devices sample_deps
          (sample_world []\<lparr>post := \<lambda>_. Inr [(''error'', PyStr ''bad''), (''errno'', PyInt 500)]\<rparr>)) =
     Inl (ApiError ''failure bad (500) on getting devices'') \<and>
   fst (get_product_iot_map sample_deps
          (sample_world []\<lparr>post := \<lambda>_. Inr [(''error'', PyStr ''bad''), (''errno'', PyInt 500)]\<rparr>)) =
     Inl (ApiError ''failure bad (500) on getting product iot map'')"
    by (simp add: sample_world_def string_of_int_def string_of_nat.simps)
  from same never msgs show ?thesis by blast
qed

section \<open>Sending a command\<close>

lemma send_command_log:
  assumes "name cmd = GetCleanLogs_name c"
    and "did dev = Inr d" and "resource dev = Inr r"
    and "authenticate w = Inr creds"
  shows "send_command c w cmd dev =
     (case post w \<lparr>path = PATH_API_LG_LOG c,
                   json = [(''td'', PyStr (name cmd)), (''did'', d), (''resource'', r)],
                   query_params = Some [(''td'', PyStr (name cmd)), (''u'', PyStr (user_id creds)),
                                        (''cv'', PyStr ''1.67.3''), (''t'', PyStr ''a''),
                                        (''av'', PyStr ''1.3.1'')],
                   headers = Some REQUEST_HEADERS, credentials = creds\<rparr> of
        Inl x \<Rightarrow> Inl (Collaborator x)
      | Inr resp \<Rightarrow> Inr resp,
      [Build [(''td'', PyStr (name cmd)), (''did'', d), (''resource'', r)],
       Authenticate,
       Post \<lparr>path = PATH_API_LG_LOG c,
             json = [(''td'', PyStr (name cmd)), (''did'', d), (''resource'', r)],
             query_params = Some [(''td'', PyStr (name cmd)), (''u'', PyStr (user_id creds)),
                                  (''cv'', PyStr ''1.67.3''), (''t'', PyStr ''a''),
                                  (''av'', PyStr ''1.3.1'')],
             headers = Some REQUEST_HEADERS, credentials = creds\<rparr>])"
  using assms by (simp add: send_command_def io_simps dict_update_def)

lemma send_command_generic:
  assumes "name cmd \<noteq> GetCleanLogs_name c"
    and "did dev = Inr d" and "resource dev = Inr r" and "get_class dev = Inr cl"
    and "authenticate w = Inr creds"
    and "payload =
           [(''header'', PyDict [(''pri'', PyStr ''1''), (''ts'', PyFloat (timestamp w)),
                                 (''tzm'', PyInt 480), (''ver'', PyStr ''0.0.50'')])] @
           (if args cmd = [] then [] else [(''body'', PyDict [(''data'', PyList (args cmd))])])"
    and "body = [(''cmdName'', PyStr (name cmd)), (''payload'', PyDict payload),
                 (''payloadType'', PyStr ''j''), (''td'', PyStr ''q''),
                 (''toId'', d), (''toRes'', r), (''toType'', cl)]"
    and "req = \<lparr>path = PATH_API_IOT_DEVMANAGER c, json = body,
                query_params = Some [(''mid'', cl), (''did'', d), (''td'', PyStr ''q''),
                                     (''u'', PyStr (user_id creds)), (''cv'', PyStr ''1.67.3''),
                                     (''t'', PyStr ''a''), (''av'', PyStr ''1.3.1'')],
                headers = Some REQUEST_HEADERS, credentials = creds\<rparr>"
  shows "send_command c w cmd dev =
     (case post w req of Inl x \<Rightarrow> Inl (Collaborator x) | Inr resp \<Rightarrow> Inr resp,
      [Timestamp, Build body, Authenticate, Post req])"
  using assms by (simp add: send_command_def io_simps dict_update_def)

lemma getitem_no_api_error: "getitem x k \<noteq> Inl (ApiError m)"
  by (cases x) (simp_all split: option.splits)

lemma send_command_did_fails:
  assumes "did dev = Inl e"
  shows "send_command c w cmd dev =
           (Inl e, if name cmd = GetCleanLogs_name c then [] else [Timestamp])"
  using assms by (simp add: send_command_def io_simps)

lemma send_command_resource_fails:
  assumes "did dev = Inr d" and "resource dev = Inl e"
  shows "send_command c w cmd dev =
           (Inl e, if name cmd = GetCleanLogs_name c then [] else [Timestamp])"
  using assms by (simp add: send_command_def io_simps)

lemma send_command_class_fails:
  assumes "name cmd \<noteq> GetCleanLogs_name c"
    and "did dev = Inr d" and "resource dev = Inr r" and "get_class dev = Inl e"
  shows "send_command c w cmd dev = (Inl e, [Timestamp])"
  using assms by (simp add: send_command_def io_simps)

lemma send_command_authenticate_fails:
  assumes "did dev = Inr d" and "resource dev = Inr r"
    and "name cmd = GetCleanLogs_name c \<or> get_class dev = Inr cl"
    and "authenticate w = Inl x"
  shows "\<exists>body. send_command c w cmd dev =
           (Inl (Collaborator x),
            (if name cmd = GetCleanLogs_name c then [] else [Timestamp]) @
            [Build body, Authenticate])"
  using assms by (auto simp: send_command_def io_simps dict_update_def)

lemma send_command_posts:
  assumes "did dev = Inr d" and "resource dev = Inr r"
    and "name cmd = GetCleanLogs_name c \<or> get_class dev = Inr cl"
    and "authenticate w = Inr creds"
  shows "\<exists>body req. send_command c w cmd dev =
           (case post w req of Inl x \<Rightarrow> Inl (Collaborator x) | Inr resp \<Rightarrow> Inr resp,
            (if name cmd = GetCleanLogs_name c then [] else [Timestamp]) @
            [Build body, Authenticate, Post req])"
proof (cases "name cmd = GetCleanLogs_name c")
  case True
  show ?thesis
    using True by (simp add: send_command_log [OF True assms(1,2,4)])
next
  case False
  with assms(3) have cl: "get_class dev = Inr cl" by simp
  show ?thesis
    using False
    by (simp add: send_command_generic [OF False assms(1,2) cl assms(4) refl refl refl])
qed

lemma did_no_api_error: "did dev \<noteq> Inl (ApiError m)"
  by (cases dev) (simp add: getitem_no_api_error)

lemma resource_no_api_error: "resource dev \<noteq> Inl (ApiError m)"
  by (cases dev) (simp add: getitem_no_api_error)

lemma get_class_no_api_error: "get_class dev \<noteq> Inl (ApiError m)"
  by (cases dev) (simp add: getitem_no_api_error)

lemma send_command_outcomes:
  "(\<exists>e t. send_command c w cmd dev = (Inl e, t) \<and> (\<forall>m. e \<noteq> ApiError m) \<and>
          Validate \<notin> set t \<and> (\<forall>r. Post r \<notin> set t) \<and>
          prefix (stages t) [Build_request, Acquire_credentials]) \<or>
   (\<exists>req t. send_command c w cmd dev =
          (case post w req of Inl x \<Rightarrow> Inl (Collaborator x) | Inr resp \<Rightarrow> Inr resp,
           t @ [Post req]) \<and>
          Validate \<notin> set t \<and> (\<forall>r. Post r \<notin> set t) \<and>
          stages t = [Build_request, Acquire_credentials] \<and>
          (\<exists>d r. did dev = Inr d \<and> resource dev = Inr r) \<and>
          (\<exists>creds. authenticate w = Inr creds))"
proof (cases "did dev")
  case (Inl e)
  with did_no_api_error [of dev] have "\<forall>m. e \<noteq> ApiError m" by auto
  then show ?thesis
    by (simp add: send_command_did_fails [OF Inl])
next
  case d: (Inr d)
  show ?thesis
  proof (cases "resource dev")
    case (Inl e)
    with resource_no_api_error [of dev] have "\<forall>m. e \<noteq> ApiError m" by auto
    then show ?thesis
      by (simp add: send_command_resource_fails [OF d Inl])
  next
    case r: (Inr r)
    show ?thesis
    proof (cases "name cmd = GetCleanLogs_name c \<or> (\<exists>cl. get_class dev = Inr cl)")
      case False
      then have n: "name cmd \<noteq> GetCleanLogs_name c" by simp
      from False obtain e where e: "get_class dev = Inl e"
        by (cases "get_class dev") auto
      with get_class_no_api_error [of dev] have "\<forall>m. e \<noteq> ApiError m" by auto
      then show ?thesis
        by (simp add: send_command_class_fails [OF n d r e])
    next
      case True
      then obtain cl where ok: "name cmd = GetCleanLogs_name c \<or> get_class dev = Inr cl"
        by blast
      show ?thesis
      proof (cases "authenticate w")
        case (Inl x)
        from send_command_authenticate_fails [OF d r ok Inl]
        obtain body where "send_command c w cmd dev =
           (Inl (Collaborator x),
            (if name cmd = GetCleanLogs_name c then [] else [Timestamp]) @
            [Build body, Authenticate])" by blast
        then show ?thesis by simp
      next
        case (Inr creds)
        from send_command_posts [OF d r ok Inr]
        obtain body req where "send_command c w cmd dev =
           (case post w req of Inl x \<Rightarrow> Inl (Collaborator x) | Inr resp \<Rightarrow> Inr resp,
            ((if name cmd = GetCleanLogs_name c then [] else [Timestamp]) @
            [Build body, Authenticate]) @ [Post req])" by auto
        then have "\<exists>req t. send_command c w cmd dev =
          (case post w req of Inl x \<Rightarrow> Inl (Collaborator x) | Inr resp \<Rightarrow> Inr resp,
           t @ [Post req]) \<and>
          Validate \<notin> set t \<and> (\<forall>r. Post r \<notin> set t) \<and>
          stages t = [Build_request, Acquire_credentials]"
          by (intro exI [of _ req]
              exI [of _ "(if name cmd = GetCleanLogs_name c then [] else [Timestamp]) @
            [Build body, Authenticate]"]) simp
        with d r Inr show ?thesis by blast
      qed
    qed
  qed
qed

lemma requests_append [simp]: "requests (a @ b) = requests a @ requests b"
  by (induction a rule: requests.induct) simp_all

lemma requests_none: "(\<forall>r. Post r \<notin> set t) \<Longrightarrow> requests t = []"
  by (induction t rule: requests.induct) auto

text \<open>
  C3. \<^verbatim>\<open>send_command\<close> chooses between two envelopes by one test, whether the
  command's name is the reserved log-retrieval name. If it is, the body is exactly
  \<^verbatim>\<open>{td, did, resource}\<close> and the request goes to the log-service path. If not, the
  body holds \<^verbatim>\<open>cmdName\<close> (the command's name), \<^verbatim>\<open>payloadType = "j"\<close>, \<^verbatim>\<open>td = "q"\<close>,
  \<^verbatim>\<open>toId\<close>, \<^verbatim>\<open>toRes\<close> and \<^verbatim>\<open>toType\<close> from the device and a payload with a \<^verbatim>\<open>header\<close>
  block, and the request goes to the device-management path. The credentials are
  there and the device has the identifiers the branch reads.
\<close>

theorem send_command_two_shapes:
  assumes "authenticate w = Inr creds"
    and "did dev = Inr d" and "resource dev = Inr r"
  shows "(name cmd = GetCleanLogs_name c \<longrightarrow>
            (\<exists>req. requests (snd (send_command c w cmd dev)) = [req] \<and>
                   path req = PATH_API_LG_LOG c \<and>
                   json req = [(''td'', PyStr (name cmd)), (''did'', d), (''resource'', r)])) \<and>
         (name cmd \<noteq> GetCleanLogs_name c \<and> get_class dev = Inr cl \<longrightarrow>
            (\<exists>req payload header.
                   requests (snd (send_command c w cmd dev)) = [req] \<and>
                   path req = PATH_API_IOT_DEVMANAGER c \<and>
                   map_of (json req) ''cmdName'' = Some (PyStr (name cmd)) \<and>
                   map_of (json req) ''payloadType'' = Some (PyStr ''j'') \<and>
                   map_of (json req) ''td'' = Some (PyStr ''q'') \<and>
                   map_of (json req) ''toId'' = Some d \<and>
                   map_of (json req) ''toRes'' = Some r \<and>
                   map_of (json req) ''toType'' = Some cl \<and>
                   map_of (json req) ''payload'' = Some (PyDict payload) \<and>
                   map_of payload ''header'' = Some (PyDict header) \<and>
                   header = [(''pri'', PyStr ''1''), (''ts'', PyFloat (timestamp w)),
                             (''tzm'', PyInt 480), (''ver'', PyStr ''0.0.50'')]))"
proof (cases "name cmd = GetCleanLogs_name c")
  case True
  show ?thesis
    using True by (simp add: send_command_log [OF True assms(2,3,1)])
next
  case False
  show ?thesis
  proof (cases "get_class dev = Inr cl")
    case cl: True
    show ?thesis
      using False cl
      by (simp add: send_command_generic [OF False assms(2,3) cl assms(1) refl refl refl])
  next
    case False
    then show ?thesis using \<open>name cmd \<noteq> GetCleanLogs_name c\<close> by simp
  qed
qed

theorem send_command_two_shapes_witness:
  "map path (requests (snd (send_command sample_deps (sample_world [])
       \<lparr>name = ''GetCleanLogs'', args = []\<rparr> sample_device))) = [''lg-log''] \<and>
   map json (requests (snd (send_command sample_deps (sample_world [])
       \<lparr>name = ''GetCleanLogs'', args = []\<rparr> sample_device))) =
     [[(''td'', PyStr ''GetCleanLogs''), (''did'', PyStr ''d1''), (''resource'', PyStr ''r1'')]] \<and>
   map path (requests (snd (send_command sample_deps (sample_world [])
       \<lparr>name = ''Charge'', args = []\<rparr> sample_device))) = [''devmanager''] \<and>
   map (\<lambda>req. map_of (json req) ''cmdName'')
     (requests (snd (send_command sample_deps (sample_world [])
       \<lparr>name = ''Charge'', args = []\<rparr> sample_device))) = [Some (PyStr ''Charge'')]"
  using send_command_two_shapes
      [of "sample_world []" "\<lparr>user_id = ''user-1''\<rparr>" sample_device "PyStr ''d1''" "PyStr ''r1''"
          "\<lparr>name = ''GetCleanLogs'', args = []\<rparr>" sample_deps "PyStr ''c1''"]
    send_command_two_shapes
      [of "sample_world []" "\<lparr>user_id = ''user-1''\<rparr>" sample_device "PyStr ''d1''" "PyStr ''r1''"
          "\<lparr>name = ''Charge'', args = []\<rparr>" sample_deps "PyStr ''c1''"]
  by (auto simp: sample_world_def sample_device_def sample_deps_def)

text \<open>
  C4. In the generic envelope the payload has a \<^verbatim>\<open>body\<close> key exactly when the command
  has arguments; then \<^verbatim>\<open>payload.body\<close> is \<^verbatim>\<open>{"data": args}\<close>, and with no arguments
  the key is absent.
\<close>

theorem send_command_body_key:
  assumes "authenticate w = Inr creds"
    and "name cmd \<noteq> GetCleanLogs_name c"
    and "did dev = Inr d" and "resource dev = Inr r" and "get_class dev = Inr cl"
  shows "\<exists>req payload.
           requests (snd (send_command c w cmd dev)) = [req] \<and>
           map_of (json req) ''payload'' = Some (PyDict payload) \<and>
           (''body'' \<in> set (map fst payload) \<longleftrightarrow> args cmd \<noteq> []) \<and>
           (args cmd \<noteq> [] \<longrightarrow>
              map_of payload ''body'' = Some (PyDict [(''data'', PyList (args cmd))])) \<and>
           (args cmd = [] \<longrightarrow> map_of payload ''body'' = None)"
  by (simp add: send_command_generic [OF assms(2,3,4,5,1) refl refl refl])

theorem send_command_body_key_witness:
  "map (\<lambda>req. map_option (\<lambda>p. field p ''body'') (map_of (json req) ''payload''))
     (requests (snd (send_command sample_deps (sample_world [])
       \<lparr>name = ''Charge'', args = []\<rparr> sample_device))) = [Some None] \<and>
   map (\<lambda>req. map_option (\<lambda>p. field p ''body'') (map_of (json req) ''payload''))
     (requests (snd (send_command sample_deps (sample_world [])
       \<lparr>name = ''Clean'', args = [PyStr ''start'']\<rparr> sample_device))) =
     [Some (Some (PyDict [(''data'', PyList [PyStr ''start''])]))]"
  using send_command_body_key
      [of "sample_world []" "\<lparr>user_id = ''user-1''\<rparr>"
          "\<lparr>name = ''Charge'', args = []\<rparr>" sample_deps sample_device
          "PyStr ''d1''" "PyStr ''r1''" "PyStr ''c1''"]
    send_command_body_key
      [of "sample_world []" "\<lparr>user_id = ''user-1''\<rparr>"
          "\<lparr>name = ''Clean'', args = [PyStr ''start'']\<rparr>" sample_deps sample_device
          "PyStr ''d1''" "PyStr ''r1''" "PyStr ''c1''"]
  by (auto simp: sample_world_def sample_device_def sample_deps_def field_def)

text \<open>
  C5. The query parameters of the request \<^verbatim>\<open>send_command\<close> posts hold \<^verbatim>\<open>u\<close>, the
  credentials' user identifier, \<^verbatim>\<open>cv = "1.67.3"\<close>, \<^verbatim>\<open>t = "a"\<close>, \<^verbatim>\<open>av = "1.3.1"\<close> and
  \<^verbatim>\<open>td\<close>, the body's \<^verbatim>\<open>td\<close>: the command's name in the log branch, \<^verbatim>\<open>"q"\<close> in the
  generic one. The generic branch alone adds \<^verbatim>\<open>mid\<close>, the device's class, and \<^verbatim>\<open>did\<close>,
  its identifier.
\<close>

theorem send_command_query_params:
  assumes "authenticate w = Inr creds"
    and "did dev = Inr d" and "resource dev = Inr r"
  shows "(name cmd = GetCleanLogs_name c \<or> get_class dev = Inr cl) \<longrightarrow>
         (\<exists>req q.
            requests (snd (send_command c w cmd dev)) = [req] \<and>
            query_params req = Some q \<and>
            map_of q ''u'' = Some (PyStr (user_id creds)) \<and>
            map_of q ''cv'' = Some (PyStr ''1.67.3'') \<and>
            map_of q ''t'' = Some (PyStr ''a'') \<and>
            map_of q ''av'' = Some (PyStr ''1.3.1'') \<and>
            map_of q ''td'' = map_of (json req) ''td'' \<and>
            (if name cmd = GetCleanLogs_name c
             then map_of q ''td'' = Some (PyStr (name cmd)) \<and>
                  map_of q ''mid'' = None \<and> map_of q ''did'' = None
             else map_of q ''td'' = Some (PyStr ''q'') \<and>
                  map_of q ''mid'' = Some cl \<and> map_of q ''did'' = Some d))"
proof (cases "name cmd = GetCleanLogs_name c")
  case True
  show ?thesis
    using True by (simp add: send_command_log [OF True assms(2,3,1)])
next
  case False
  show ?thesis
  proof (cases "get_class dev = Inr cl")
    case cl: True
    show ?thesis
      using False cl
      by (simp add: send_command_generic [OF False assms(2,3) cl assms(1) refl refl refl])
  next
    case False
    then show ?thesis using \<open>name cmd \<noteq> GetCleanLogs_name c\<close> by simp
  qed
qed

theorem send_command_query_params_witness:
  "map query_params (requests (snd (send_command sample_deps (sample_world [])
       \<lparr>name = ''GetCleanLogs'', args = []\<rparr> sample_device))) =
     [Some [(''td'', PyStr ''GetCleanLogs''), (''u'', PyStr ''user-1''), (''cv'', PyStr ''1.67.3''),
            (''t'', PyStr ''a''), (''av'', PyStr ''1.3.1'')]] \<and>
   map query_params (requests (snd (send_command sample_deps (sample_world [])
       \<lparr>name = ''Charge'', args = []\<rparr> sample_device))) =
     [Some [(''mid'', PyStr ''c1''), (''did'', PyStr ''d1''), (''td'', PyStr ''q''),
            (''u'', PyStr ''user-1''), (''cv'', PyStr ''1.67.3''),
            (''t'', PyStr ''a''), (''av'', PyStr ''1.3.1'')]]"
  using send_command_query_params
      [of "sample_world []" "\<lparr>user_id = ''user-1''\<rparr>" sample_device "PyStr ''d1''" "PyStr ''r1''"
          "\<lparr>name = ''GetCleanLogs'', args = []\<rparr>" sample_deps "PyStr ''c1''"]
    send_command_query_params
      [of "sample_world []" "\<lparr>user_id = ''user-1''\<rparr>" sample_device "PyStr ''d1''" "PyStr ''r1''"
          "\<lparr>name = ''Charge'', args = []\<rparr>" sample_deps "PyStr ''c1''"]
  by (simp add: sample_world_def sample_device_def sample_deps_def send_command_def io_simps
      dict_update_def)

text \<open>
  C7. \<^verbatim>\<open>send_command\<close> never raises \<^verbatim>\<open>ApiError\<close> and never tests the reply: whenever it
  has posted a request and the transport answered with a reply, that reply is its
  result, whatever the reply holds; and it does post one when the credentials are
  there and the device has its identifiers.
\<close>

theorem send_command_returns_raw_reply:
  "(\<forall>m. fst (send_command c w cmd dev) \<noteq> Inl (ApiError m)) \<and>
   Validate \<notin> set (snd (send_command c w cmd dev)) \<and>
   (\<forall>req resp. Post req \<in> set (snd (send_command c w cmd dev)) \<and> post w req = Inr resp \<longrightarrow>
      fst (send_command c w cmd dev) = Inr resp) \<and>
   (\<forall>creds d r cl. authenticate w = Inr creds \<and> did dev = Inr d \<and> resource dev = Inr r \<and>
        (name cmd = GetCleanLogs_name c \<or> get_class dev = Inr cl) \<longrightarrow>
      (\<exists>req. requests (snd (send_command c w cmd dev)) = [req]))"
proof -
  consider
    (fails) e t where "send_command c w cmd dev = (Inl e, t)" "\<forall>m. e \<noteq> ApiError m"
      "Validate \<notin> set t" "\<forall>r. Post r \<notin> set t"
      "\<not> (\<exists>creds d r cl. authenticate w = Inr creds \<and> did dev = Inr d \<and> resource dev = Inr r \<and>
        (name cmd = GetCleanLogs_name c \<or> get_class dev = Inr cl))"
  | (posts) req t where "send_command c w cmd dev =
          (case post w req of Inl x \<Rightarrow> Inl (Collaborator x) | Inr resp \<Rightarrow> Inr resp,
           t @ [Post req])" "Validate \<notin> set t" "\<forall>r. Post r \<notin> set t"
  proof (cases "\<exists>creds d r cl. authenticate w = Inr creds \<and> did dev = Inr d \<and> resource dev = Inr r \<and>
        (name cmd = GetCleanLogs_name c \<or> get_class dev = Inr cl)")
    case True
    then obtain creds d r cl where h: "authenticate w = Inr creds" "did dev = Inr d"
      "resource dev = Inr r" "name cmd = GetCleanLogs_name c \<or> get_class dev = Inr cl"
      by blast
    from send_command_posts [OF h(2,3,4,1)] obtain body req where
      "send_command c w cmd dev =
           (case post w req of Inl x \<Rightarrow> Inl (Collaborator x) | Inr resp \<Rightarrow> Inr resp,
            ((if name cmd = GetCleanLogs_name c then [] else [Timestamp]) @
            [Build body, Authenticate]) @ [Post req])" by auto
    then show ?thesis by (rule posts) simp_all
  next
    case False
    from send_command_outcomes [of c w cmd dev] show ?thesis
    proof (elim disjE exE conjE)
      fix e t
      assume "send_command c w cmd dev = (Inl e, t)" "\<forall>m. e \<noteq> ApiError m"
        "Validate \<notin> set t" "\<forall>r. Post r \<notin> set t"
      then show ?thesis using False by (rule fails)
    next
      fix req t
      assume "send_command c w cmd dev =
          (case post w req of Inl x \<Rightarrow> Inl (Collaborator x) | Inr resp \<Rightarrow> Inr resp,
           t @ [Post req])" "Validate \<notin> set t" "\<forall>r. Post r \<notin> set t"
      then show ?thesis by (rule posts)
    qed
  qed
  then show ?thesis
  proof cases
    case fails
    then show ?thesis by auto
  next
    case posts
    then show ?thesis
      by (auto simp: requests_none split: sum.splits)
  qed
qed

theorem send_command_returns_raw_reply_witness:
  "fst (send_command sample_deps (sample_world [(''code'', PyInt 1), (''error'', PyStr ''bad'')])
          \<lparr>name = ''Charge'', args = []\<rparr> sample_device) =
     Inr [(''code'', PyInt 1), (''error'', PyStr ''bad'')]"
proof -
  have "\<exists>req. Post req \<in> set (snd (send_command sample_deps
          (sample_world [(''code'', PyInt 1), (''error'', PyStr ''bad'')])
          \<lparr>name = ''Charge'', args = []\<rparr> sample_device))"
    by (simp add: send_command_def io_simps dict_update_def sample_world_def sample_device_def
        sample_deps_def)
  then obtain req where "Post req \<in> set (snd (send_command sample_deps
          (sample_world [(''code'', PyInt 1), (''error'', PyStr ''bad'')])
          \<lparr>name = ''Charge'', args = []\<rparr> sample_device))" by blast
  moreover have "post (sample_world [(''code'', PyInt 1), (''error'', PyStr ''bad'')]) req =
      Inr [(''code'', PyInt 1), (''error'', PyStr ''bad'')]"
    by (simp add: sample_world_def)
  ultimately show ?thesis
    using send_command_returns_raw_reply
      [of sample_deps "sample_world [(''code'', PyInt 1), (''error'', PyStr ''bad'')]"
          "\<lparr>name = ''Charge'', args = []\<rparr>" sample_device]
    by blast
qed

section \<open>The order of the stages\<close>

lemma get_devices_stages:
  "prefix (stages (snd (get_devices c w)))
     [Acquire_credentials, Build_request, Invoke_transport, Validate_reply] \<and>
   (authenticate w = Inr creds \<and> (\<forall>req. \<exists>resp. post w req = Inr resp) \<longrightarrow>
      stages (snd (get_devices c w)) =
        [Acquire_credentials, Build_request, Invoke_transport, Validate_reply])"
proof (cases "authenticate w")
  case (Inl x)
  then show ?thesis by (simp add: get_devices_def io_simps)
next
  case (Inr cr)
  let ?req = "\<lparr>path = PATH_API_APPSVR_APP c,
      json = [(''userid'', PyStr (user_id cr)), (''todo'', PyStr ''GetGlobalDeviceList'')],
      query_params = None, headers = None, credentials = cr\<rparr>"
  show ?thesis
  proof (cases "post w ?req")
    case (Inl x)
    then have "stages (snd (get_devices c w)) =
        [Acquire_credentials, Build_request, Invoke_transport]"
      using Inr by (simp add: get_devices_def io_simps)
    moreover have "\<not> (\<forall>req. \<exists>resp. post w req = Inr resp)"
      using Inl by (metis sum.distinct(1))
    ultimately show ?thesis by simp
  next
    case resp: (Inr resp)
    have "stages (snd (get_devices c w)) =
        [Acquire_credentials, Build_request, Invoke_transport, Validate_reply]"
      using Inr resp
      by (simp add: get_devices_def io_simps devices_loop_stages split: sum.splits)
    then show ?thesis by simp
  qed
qed

lemma get_product_iot_map_stages:
  "prefix (stages (snd (get_product_iot_map c w)))
     [Build_request, Acquire_credentials, Invoke_transport, Validate_reply] \<and>
   (authenticate w = Inr creds \<and> (\<forall>req. \<exists>resp. post w req = Inr resp) \<longrightarrow>
      stages (snd (get_product_iot_map c w)) =
        [Build_request, Acquire_credentials, Invoke_transport, Validate_reply])"
proof (cases "authenticate w")
  case (Inl x)
  then show ?thesis by (simp add: get_product_iot_map_def io_simps)
next
  case (Inr cr)
  let ?req = "\<lparr>path = PATH_API_PIM_PRODUCT_IOT_MAP c, json = [], query_params = None,
      headers = None, credentials = cr\<rparr>"
  show ?thesis
  proof (cases "post w ?req")
    case (Inl x)
    then have "stages (snd (get_product_iot_map c w)) =
        [Build_request, Acquire_credentials, Invoke_transport]"
      using Inr by (simp add: get_product_iot_map_def io_simps)
    moreover have "\<not> (\<forall>req. \<exists>resp. post w req = Inr resp)"
      using Inl by (metis sum.distinct(1))
    ultimately show ?thesis by simp
  next
    case resp: (Inr resp)
    have "stages (snd (get_product_iot_map c w)) =
        [Build_request, Acquire_credentials, Invoke_transport, Validate_reply]"
      using Inr resp
      by (simp add: get_product_iot_map_def io_simps split: sum.splits)
    then show ?thesis by simp
  qed
qed

lemma send_command_stages:
  "prefix (stages (snd (send_command c w cmd dev)))
     [Build_request, Acquire_credentials, Invoke_transport] \<and>
   (authenticate w = Inr creds \<and> did dev = Inr d \<and> resource dev = Inr r \<and>
    (name cmd = GetCleanLogs_name c \<or> get_class dev = Inr cl) \<longrightarrow>
      stages (snd (send_command c w cmd dev)) =
        [Build_request, Acquire_credentials, Invoke_transport])"
proof -
  have step: "prefix xs [Build_request, Acquire_credentials] \<Longrightarrow>
      prefix xs [Build_request, Acquire_credentials, Invoke_transport]" for xs
    using prefix_order.trans [of xs "[Build_request, Acquire_credentials]"
        "[Build_request, Acquire_credentials, Invoke_transport]"]
    by simp
  from send_command_outcomes [of c w cmd dev]
  have pre: "prefix (stages (snd (send_command c w cmd dev)))
     [Build_request, Acquire_credentials, Invoke_transport]"
    by (auto simp: step)
  have full: "stages (snd (send_command c w cmd dev)) =
        [Build_request, Acquire_credentials, Invoke_transport]"
    if h: "authenticate w = Inr creds" "did dev = Inr d" "resource dev = Inr r"
      "name cmd = GetCleanLogs_name c \<or> get_class dev = Inr cl"
  proof -
    from send_command_posts [OF h(2,3,4,1)] obtain body req where
      "send_command c w cmd dev =
           (case post w req of Inl x \<Rightarrow> Inl (Collaborator x) | Inr resp \<Rightarrow> Inr resp,
            (if name cmd = GetCleanLogs_name c then [] else [Timestamp]) @
            [Build body, Authenticate, Post req])" by blast
    then show ?thesis by simp
  qed
  from pre full show ?thesis by blast
qed

text \<open>
  C8, as the spec words it, fails: \<^verbatim>\<open>send_command\<close> has built the envelope when it
  acquires the credentials.
\<close>

theorem spec_stage_order_counterexample:
  "\<not> spec_stage_order
       (snd (send_command sample_deps (sample_world []) \<lparr>name = ''Charge'', args = []\<rparr>
               sample_device))"
  by (simp add: spec_stage_order_def send_command_def io_simps dict_update_def sample_world_def
      sample_device_def sample_deps_def)

text \<open>
  C8, amended. \<^verbatim>\<open>get_devices\<close> acquires the credentials, builds the body, invokes the
  transport and validates the reply, in this order. \<^verbatim>\<open>get_product_iot_map\<close> and
  \<^verbatim>\<open>send_command\<close> build the body first and acquire the credentials after it, then
  invoke the transport; \<^verbatim>\<open>get_product_iot_map\<close> then validates, \<^verbatim>\<open>send_command\<close> has
  no validation. Every run goes through a prefix of its operation's sequence, and
  through all of it when the collaborators answer and the device has its identifiers.
\<close>

theorem stage_order_as_coded:
  "prefix (stages (snd (get_devices c w)))
     [Acquire_credentials, Build_request, Invoke_transport, Validate_reply] \<and>
   prefix (stages (snd (get_product_iot_map c w)))
     [Build_request, Acquire_credentials, Invoke_transport, Validate_reply] \<and>
   prefix (stages (snd (send_command c w cmd dev)))
     [Build_request, Acquire_credentials, Invoke_transport] \<and>
   (authenticate w = Inr creds \<and> (\<forall>req. \<exists>resp. post w req = Inr resp) \<longrightarrow>
      stages (snd (get_devices c w)) =
        [Acquire_credentials, Build_request, Invoke_transport, Validate_reply] \<and>
      stages (snd (get_product_iot_map c w)) =
        [Build_request, Acquire_credentials, Invoke_transport, Validate_reply]) \<and>
   (authenticate w = Inr creds \<and> did dev = Inr d \<and> resource dev = Inr r \<and>
    (name cmd = GetCleanLogs_name c \<or> get_class dev = Inr cl) \<longrightarrow>
      stages (snd (send_command c w cmd dev)) =
        [Build_request, Acquire_credentials, Invoke_transport])"
  using get_devices_stages [of c w creds] get_product_iot_map_stages [of c w creds]
    send_command_stages [of c w cmd dev creds d r cl]
  by blast

theorem stage_order_as_coded_witness:
  "stages (snd (get_devices sample_deps (sample_world [(''code'', PyInt 0), (''devices'', PyList [])]))) =
     [Acquire_credentials, Build_request, Invoke_transport, Validate_reply] \<and>
   stages (snd (get_product_iot_map sample_deps
                  (sample_world [(''code'', PyInt 0), (''devices'', PyList [])]))) =
     [Build_request, Acquire_credentials, Invoke_transport, Validate_reply] \<and>
   stages (snd (send_command sample_deps (sample_world [(''code'', PyInt 0), (''devices'', PyList [])])
                  \<lparr>name = ''Charge'', args = []\<rparr> sample_device)) =
     [Build_request, Acquire_credentials, Invoke_transport]"
proof -
  have a: "authenticate (sample_world [(''code'', PyInt 0), (''devices'', PyList [])]) =
             Inr \<lparr>user_id = ''user-1''\<rparr>"
    and p: "\<forall>req. \<exists>resp. post (sample_world [(''code'', PyInt 0), (''devices'', PyList [])]) req =
             Inr resp"
    by (simp_all add: sample_world_def)
  have d: "did sample_device = Inr (PyStr ''d1'')"
    and r: "resource sample_device = Inr (PyStr ''r1'')"
    and cl: "name \<lparr>name = ''Charge'', args = []\<rparr> = GetCleanLogs_name sample_deps \<or>
             get_class sample_device = Inr (PyStr ''c1'')"
    by (simp_all add: sample_device_def)
  from a p d r cl
    stage_order_as_coded
      [of sample_deps "sample_world [(''code'', PyInt 0), (''devices'', PyList [])]"
          "\<lparr>name = ''Charge'', args = []\<rparr>" sample_device "\<lparr>user_id = ''user-1''\<rparr>"
          "PyStr ''d1''" "PyStr ''r1''" "PyStr ''c1''"]
  show ?thesis by blast
qed

end
